theory Spec2Isabelle
  imports Main
begin

section \<open>The store: tables, rows, errors and fault points\<close>

text \<open>
  Instants (Go's \<open>time.Time\<close>) and durations (\<open>time.Duration\<close>) are integers, counted in
  nanoseconds, instants from the Unix epoch; \<open>t.After(u)\<close> is \<open>u < t\<close>. A duration is a
  64-bit count, and \<open>t.Sub(u)\<close> is the difference brought into that range: below
  \<open>minDuration\<close> it is \<open>minDuration\<close>, above \<open>maxDuration\<close> it is \<open>maxDuration\<close>.
  \<open>t.Add(d)\<close> is \<open>t + d\<close>, which is what \<open>Add\<close> returns whenever the result is an instant that
  a \<open>Time\<close> can hold (its seconds, counted from year 1, fit 64 bits: \<open>representable\<close>).
\<close>

type_synonym time = int

definition minDuration :: int where
  "minDuration = - 9223372036854775808"

definition maxDuration :: int where
  "maxDuration = 9223372036854775807"

definition Time_Sub :: "time \<Rightarrow> time \<Rightarrow> int" where
  "Time_Sub t u = max minDuration (min maxDuration (t - u))"

definition representable :: "time \<Rightarrow> bool" where
  "representable t =
     (- 9223372036854775808 \<le> t div 1000000000 + 62135596800
      \<and> t div 1000000000 + 62135596800 \<le> 9223372036854775807)"

text \<open>
  Modelled from the spec: the row types of \<open>internal/model\<close> and the table declarations are
  not among the sources. A row carries the columns that the SQL statements of
  \<open>lock.go\<close> and of the federation file name; a table is the list of its rows, in insertion
  order, and no uniqueness constraint is assumed (a statement with a \<open>WHERE\<close> clause acts on
  every row it selects, \<open>QueryRow\<close> reads the first one). The columns \<open>completed\<close>,
  \<open>insertions\<close> and \<open>max_timestamp\<close> of a history row are empty until the sync is
  finalized.
\<close>

record lock_row =
  lock_id :: string
  expires :: time

record federation_query =
  query_id :: string
  server_addr :: string
  include_regions :: "string list"
  exclude_regions :: "string list"
  last_timestamp :: time

record federation_sync =
  sync_id :: string
  sync_query_id :: string
  started :: time
  completed :: "time option"
  insertions :: "int option"
  max_timestamp :: "time option"

record store =
  lockT :: "lock_row list"
  queryT :: "federation_query list"
  syncT :: "federation_sync list"

text \<open>
  The errors of the database package: the two sentinels, and \<open>fmt.Errorf\<close> wrappers, which
  are kept by the text before the wrapped error.
\<close>

datatype dberror = ErrAlreadyLocked | ErrNotFound | Wrapped string

text \<open>
  Every call into the driver can fail for reasons outside the program (connection lost,
  transaction refused). The fault points are the calls of the source; a set of them says
  which calls fail during one operation.
\<close>

datatype dbop =
    PoolAcquire | BeginTx | Scan | Commit
  | UpdateLock | InsertLock | DeleteLock
  | DeleteQuery | InsertQuery
  | InsertSync | UpdateQuery | UpdateSync

text \<open>
  Modelled from the spec: \<open>finishTx\<close> is not among the sources. Section 4.1: the transaction
  commits if the body set the commit flag and rolls back otherwise. The body hands over its
  result, the flag and the store as the transaction sees it; a rollback gives back the
  store of before, and so does a commit that fails, whose error replaces the result.
\<close>

definition finishTx :: "dbop set \<Rightarrow> store \<Rightarrow> (dberror + 'a) \<times> bool \<times> store \<Rightarrow> (dberror + 'a) \<times> store" where
  "finishTx fails db r =
     (case r of (res, commit, tx) \<Rightarrow>
        if commit then
          (if Commit \<in> fails then (Inl (Wrapped ''failed to commit''), db) else (res, tx))
        else (res, db))"

section \<open>The lock (lock.go)\<close>

text \<open>
  \<open>UnlockFn\<close>: the closure built by \<open>buildUnlockFn\<close> captures the lock id only, so the handle
  is that id.
\<close>

datatype UnlockFn = UnlockFn string

text \<open>The \<open>SELECT ... WHERE lock_id=$1\<close> with its \<open>Scan\<close>: the first row of that id, if any.\<close>

definition scanLock :: "dbop set \<Rightarrow> lock_row list \<Rightarrow> string \<Rightarrow> dberror + lock_row option" where
  "scanLock fails rows lockID =
     (if Scan \<in> fails then Inl (Wrapped ''scanning results'')
      else Inr (find (\<lambda>l. lock_id l = lockID) rows))"

definition updateLockRows :: "time \<Rightarrow> string \<Rightarrow> lock_row list \<Rightarrow> lock_row list" where
  "updateLockRows expiry lockID rows =
     map (\<lambda>l. if lock_id l = lockID then l\<lparr>expires := expiry\<rparr> else l) rows"

definition insertLockRow :: "string \<Rightarrow> time \<Rightarrow> lock_row list \<Rightarrow> lock_row list" where
  "insertLockRow lockID expiry rows = rows @ [\<lparr>lock_id = lockID, expires = expiry\<rparr>]"

definition deleteLockRows :: "string \<Rightarrow> lock_row list \<Rightarrow> lock_row list" where
  "deleteLockRows lockID rows = filter (\<lambda>l. lock_id l \<noteq> lockID) rows"

text \<open>
  \<open>DB.Lock\<close>. The clock is read twice: \<open>now1\<close> is the reading that gives the new expiry
  (line 73), \<open>now2\<close> the later one that is compared with the stored expiry (line 76).
  The test of \<open>err\<close> after \<open>QueryRow\<close> (line 59) reads the error of \<open>BeginTx\<close>, which is
  nil there, so it is no branch; a failing query shows in \<open>Scan\<close>.
\<close>

definition Lock :: "dbop set \<Rightarrow> time \<Rightarrow> time \<Rightarrow> store \<Rightarrow> string \<Rightarrow> time \<Rightarrow> (dberror + UnlockFn) \<times> store" where
  "Lock fails now1 now2 db lockID ttl =
     (if PoolAcquire \<in> fails then (Inl (Wrapped ''unable to obtain database connection''), db)
      else if BeginTx \<in> fails then (Inl (Wrapped ''starting transaction''), db)
      else finishTx fails db
        (case scanLock fails (lockT db) lockID of
           Inl e \<Rightarrow> (Inl e, False, db)
         | Inr existing \<Rightarrow>
             (let expiry = now1 + ttl in
              case existing of
                Some l \<Rightarrow>
                  if expires l < now2 then
                    (if UpdateLock \<in> fails then (Inl (Wrapped ''updating expired lock''), False, db)
                     else (Inr (UnlockFn lockID), True,
                           db\<lparr>lockT := updateLockRows expiry lockID (lockT db)\<rparr>))
                  else (Inl ErrAlreadyLocked, False, db)
              | None \<Rightarrow>
                  if InsertLock \<in> fails then (Inl (Wrapped ''inserting new lock''), False, db)
                  else (Inr (UnlockFn lockID), True,
                        db\<lparr>lockT := insertLockRow lockID expiry (lockT db)\<rparr>))))"

text \<open>The closure returned by \<open>buildUnlockFn\<close>, applied to the store of the moment.\<close>

fun unlock :: "dbop set \<Rightarrow> UnlockFn \<Rightarrow> store \<Rightarrow> (dberror + unit) \<times> store" where
  "unlock fails (UnlockFn lockID) db =
     (if PoolAcquire \<in> fails then (Inl (Wrapped ''unable to obtain database connection''), db)
      else if BeginTx \<in> fails then (Inl (Wrapped ''starting transaction''), db)
      else finishTx fails db
        (if DeleteLock \<in> fails then (Inl (Wrapped ''deleting lock''), False, db)
         else (Inr (), True, db\<lparr>lockT := deleteLockRows lockID (lockT db)\<rparr>)))"

section \<open>Federation queries and sync history (the federation file of package database)\<close>

text \<open>\<open>getFederationQuery\<close>, over the rows that the given \<open>QueryRow\<close> function reads.\<close>

definition getFederationQuery :: "dbop set \<Rightarrow> federation_query list \<Rightarrow> string \<Rightarrow> dberror + federation_query" where
  "getFederationQuery fails rows queryID =
     (if Scan \<in> fails then Inl (Wrapped ''scanning results'')
      else case find (\<lambda>q. query_id q = queryID) rows of
             None \<Rightarrow> Inl ErrNotFound
           | Some q \<Rightarrow> Inr q)"

definition GetFederationQuery :: "dbop set \<Rightarrow> store \<Rightarrow> string \<Rightarrow> dberror + federation_query" where
  "GetFederationQuery fails db queryID =
     (if PoolAcquire \<in> fails then Inl (Wrapped ''unable to obtain database connection'')
      else getFederationQuery fails (queryT db) queryID)"

definition deleteQueryRows :: "string \<Rightarrow> federation_query list \<Rightarrow> federation_query list" where
  "deleteQueryRows queryID rows = filter (\<lambda>r. query_id r \<noteq> queryID) rows"

definition insertQueryRow :: "federation_query \<Rightarrow> federation_query list \<Rightarrow> federation_query list" where
  "insertQueryRow q rows =
     rows @ [\<lparr>query_id = query_id q, server_addr = server_addr q,
               include_regions = include_regions q, exclude_regions = exclude_regions q,
               last_timestamp = last_timestamp q\<rparr>]"

definition AddFederationQuery :: "dbop set \<Rightarrow> store \<Rightarrow> federation_query \<Rightarrow> (dberror + unit) \<times> store" where
  "AddFederationQuery fails db q =
     (if PoolAcquire \<in> fails then (Inl (Wrapped ''unable to obtain database connection''), db)
      else if BeginTx \<in> fails then (Inl (Wrapped ''starting transaction''), db)
      else finishTx fails db
        (case (case getFederationQuery fails (queryT db) (query_id q) of
                 Inl e \<Rightarrow> if e = ErrNotFound then Inr False
                          else Inl (Wrapped ''getting existing federation query'')
               | Inr _ \<Rightarrow> Inr True) of
           Inl e \<Rightarrow> (Inl e, False, db)
         | Inr existing \<Rightarrow>
             if existing \<and> DeleteQuery \<in> fails
             then (Inl (Wrapped ''deleting existing federation query''), False, db)
             else
               (let tx1 = (if existing
                           then db\<lparr>queryT := deleteQueryRows (query_id q) (queryT db)\<rparr>
                           else db)
                in if InsertQuery \<in> fails
                   then (Inl (Wrapped ''inserting federation query''), False, tx1)
                   else (Inr (), True, tx1\<lparr>queryT := insertQueryRow q (queryT tx1)\<rparr>))))"

text \<open>
  \<open>StartFederationSync\<close> receives the query as a pointer, and the closure it returns keeps
  that pointer: \<open>q.QueryID\<close> is read once when the sync starts (line 320) and again each
  time the closure runs (line 349). The memory that such pointers lead to is a map from
  addresses to queries; every function that follows a pointer takes the memory as it is
  when the function runs.
\<close>

type_synonym addr = nat

type_synonym heap = "addr \<Rightarrow> federation_query"

text \<open>
  \<open>FinalizeSyncFn\<close>: the closure captures the pointer \<open>q\<close>, the caller's \<open>started\<close>, the clock
  reading \<open>startedTimer\<close> and the generated \<open>syncID\<close>.
\<close>

record FinalizeSyncFn =
  fin_q :: addr
  fin_started :: time
  fin_startedTimer :: time
  fin_syncID :: string

text \<open>
  \<open>StartFederationSync\<close>: \<open>now\<close> is the clock reading of line 313 and \<open>uuid\<close> the string that
  \<open>uuid.New()\<close> produces. The insert runs on the connection, outside any transaction.
\<close>

definition StartFederationSync :: "dbop set \<Rightarrow> time \<Rightarrow> string \<Rightarrow> heap \<Rightarrow> store \<Rightarrow> addr \<Rightarrow> time \<Rightarrow> (dberror + string \<times> FinalizeSyncFn) \<times> store" where
  "StartFederationSync fails now uuid mem db q startedAt =
     (if PoolAcquire \<in> fails then (Inl (Wrapped ''unable to obtain database connection''), db)
      else
        (let startedTimer = now; syncID = uuid
         in if InsertSync \<in> fails then (Inl (Wrapped ''inserting federation sync''), db)
            else (Inr (syncID, \<lparr>fin_q = q, fin_started = startedAt,
                                 fin_startedTimer = startedTimer, fin_syncID = syncID\<rparr>),
                  db\<lparr>syncT := syncT db @
                     [\<lparr>sync_id = syncID, sync_query_id = query_id (mem q), started = startedAt,
                       completed = None, insertions = None, max_timestamp = None\<rparr>]\<rparr>)))"

definition updateQueryRows :: "time \<Rightarrow> string \<Rightarrow> federation_query list \<Rightarrow> federation_query list" where
  "updateQueryRows maxTimestamp queryID rows =
     map (\<lambda>r. if query_id r = queryID then r\<lparr>last_timestamp := maxTimestamp\<rparr> else r) rows"

definition updateSyncRows :: "time \<Rightarrow> int \<Rightarrow> time \<Rightarrow> string \<Rightarrow> federation_sync list \<Rightarrow> federation_sync list" where
  "updateSyncRows completedAt totalInserted maxTimestamp syncID rows =
     map (\<lambda>r. if sync_id r = syncID
              then r\<lparr>completed := Some completedAt, insertions := Some totalInserted,
                     max_timestamp := Some maxTimestamp\<rparr>
              else r) rows"

text \<open>
  The finalize closure, applied to the memory and the store of the moment; \<open>now\<close> is the
  clock reading of line 332.
\<close>

definition finalize :: "dbop set \<Rightarrow> time \<Rightarrow> heap \<Rightarrow> FinalizeSyncFn \<Rightarrow> store \<Rightarrow> time \<Rightarrow> int \<Rightarrow> (dberror + unit) \<times> store" where
  "finalize fails now mem c db maxTimestamp totalInserted =
     (if PoolAcquire \<in> fails then (Inl (Wrapped ''unable to obtain database connection''), db)
      else
        (let completedAt = fin_started c + Time_Sub now (fin_startedTimer c)
         in if BeginTx \<in> fails then (Inl (Wrapped ''starting transaction''), db)
            else finishTx fails db
              (if totalInserted > 0 \<and> UpdateQuery \<in> fails
               then (Inl (Wrapped ''updating federation query''), False, db)
               else
                 (let tx1 = (if totalInserted > 0
                             then db\<lparr>queryT := updateQueryRows maxTimestamp (query_id (mem (fin_q c))) (queryT db)\<rparr>
                             else db)
                  in if UpdateSync \<in> fails
                     then (Inl (Wrapped ''updating federation sync''), False, tx1)
                     else (Inr (), True,
                           tx1\<lparr>syncT := updateSyncRows completedAt totalInserted maxTimestamp
                                          (fin_syncID c) (syncT tx1)\<rparr>)))))"

text \<open>
  A run of finalize calls, one after the other on the same store: each call comes with its
  faults, its clock reading, the memory of its moment, its closure and its two arguments.
\<close>

fun finalize_all :: "store \<Rightarrow> (dbop set \<times> time \<times> heap \<times> FinalizeSyncFn \<times> time \<times> int) list \<Rightarrow> store" where
  "finalize_all db [] = db"
| "finalize_all db ((fails, now, mem, c, maxTimestamp, totalInserted) # calls) =
     finalize_all (snd (finalize fails now mem c db maxTimestamp totalInserted)) calls"

section \<open>Region authorization (package verification)\<close>

text \<open>
  The two types of \<open>internal/model\<close> that the test \<open>TestVerifyRegions\<close> builds, with the
  fields it sets: \<open>AllowedRegions\<close> is a Go \<open>map[string]bool\<close>.
\<close>

record APIConfig =
  AppPackageName :: string
  AllowAllRegions :: bool
  AllowedRegions :: "string \<rightharpoonup> bool"

record Publish =
  Regions :: "string list"

text \<open>The verb \<open>'%v'\<close> of the message: the value between two apostrophes.\<close>

definition quoted :: "string \<Rightarrow> string" where
  "quoted s = CHR 0x27 # s @ [CHR 0x27]"

text \<open>
  Modelled from the spec: \<open>VerifyRegions\<close> is not among the sources, only its test is.
  Section 8: with no config every request fails (the test expects the text
  \<open>no allowed regions configured\<close>); with \<open>AllowAllRegions\<close> every region list is accepted;
  otherwise the request is accepted when each of its regions is in the allowed set, and
  fails with a message naming the caller and the rejected region, the first one of the
  request that is not allowed.
\<close>

definition VerifyRegions :: "APIConfig option \<Rightarrow> Publish \<Rightarrow> string + unit" where
  "VerifyRegions cfg data =
     (case cfg of
        None \<Rightarrow> Inl ''no allowed regions configured''
      | Some c \<Rightarrow>
          if AllowAllRegions c then Inr ()
          else (case find (\<lambda>r. AllowedRegions c r \<noteq> Some True) (Regions data) of
                  None \<Rightarrow> Inr ()
                | Some r \<Rightarrow>
                    Inl (''application '' @ quoted (AppPackageName c)
                         @ '' tried to write unauthorized region: '' @ quoted r)))"

text \<open>The configurations of the test.\<close>

definition appPkgName :: string where
  "appPkgName = ''com.example.pkg''"

definition allRegions :: APIConfig where
  "allRegions = \<lparr>AppPackageName = appPkgName, AllowAllRegions = True, AllowedRegions = Map.empty\<rparr>"

definition usCaRegions :: APIConfig where
  "usCaRegions = \<lparr>AppPackageName = appPkgName, AllowAllRegions = False,
                   AllowedRegions = [''US'' \<mapsto> True, ''CA'' \<mapsto> True]\<rparr>"

section \<open>The command-line tool that sets a federation query\<close>

text \<open>
  The regular expressions of the tool, in the syntax tree that \<open>regexp.MustCompile\<close> builds
  from them: a character class is a predicate on characters, \<open>x+\<close> is \<open>xx*\<close>, \<open>x?\<close> is \<open>x\<close> or
  the empty string. Both patterns stand between \<open>\A\<close> and \<open>\z\<close>, so \<open>MatchString\<close> holds
  when the whole string is in the language; it is decided by derivatives.
\<close>

datatype rx = Never | Empty | Class "char \<Rightarrow> bool" | Cat rx rx | Alt rx rx | Star rx

definition PlusRx :: "rx \<Rightarrow> rx" where
  "PlusRx r = Cat r (Star r)"

definition QuestRx :: "rx \<Rightarrow> rx" where
  "QuestRx r = Alt r Empty"

fun nullable :: "rx \<Rightarrow> bool" where
  "nullable Never = False"
| "nullable Empty = True"
| "nullable (Class p) = False"
| "nullable (Cat a b) = (nullable a \<and> nullable b)"
| "nullable (Alt a b) = (nullable a \<or> nullable b)"
| "nullable (Star a) = True"

fun deriv :: "char \<Rightarrow> rx \<Rightarrow> rx" where
  "deriv c Never = Never"
| "deriv c Empty = Never"
| "deriv c (Class p) = (if p c then Empty else Never)"
| "deriv c (Cat a b) =
     (if nullable a then Alt (Cat (deriv c a) b) (deriv c b) else Cat (deriv c a) b)"
| "deriv c (Alt a b) = Alt (deriv c a) (deriv c b)"
| "deriv c (Star a) = Cat (deriv c a) (Star a)"

fun MatchString :: "rx \<Rightarrow> string \<Rightarrow> bool" where
  "MatchString r [] = nullable r"
| "MatchString r (c # s) = MatchString (deriv c r) s"

definition in_range :: "char \<Rightarrow> char \<Rightarrow> char \<Rightarrow> bool" where
  "in_range lo hi c = ((of_char lo :: nat) \<le> of_char c \<and> (of_char c :: nat) \<le> of_char hi)"

definition lower :: "char \<Rightarrow> bool" where
  "lower c = in_range CHR ''a'' CHR ''z'' c"

definition digit :: "char \<Rightarrow> bool" where
  "digit c = in_range CHR ''0'' CHR ''9'' c"

definition validQueryIDRegexp :: rx where
  "validQueryIDRegexp =
     Cat (Class lower)
       (Cat (Star (Class (\<lambda>c. lower c \<or> digit c \<or> c = CHR ''-'' \<or> c = CHR ''_'')))
            (Class (\<lambda>c. lower c \<or> digit c)))"

definition validServerAddrRegexp :: rx where
  "validServerAddrRegexp =
     Cat (PlusRx (Class (\<lambda>c. lower c \<or> digit c \<or> c = CHR ''.'' \<or> c = CHR ''-'')))
         (QuestRx (Cat (Class (\<lambda>c. c = CHR '':'')) (PlusRx (Class digit))))"

text \<open>
  The flags after \<open>flag.Parse\<close>; the two region lists are the values that
  \<open>cflag.RegionListVar\<close> has collected.
\<close>

record flags =
  queryID :: string
  serverAddr :: string
  lastTimestamp :: string
  includeRegions :: "string list"
  excludeRegions :: "string list"

text \<open>The zero \<open>time.Time\<close>: 1 January of year 1, in nanoseconds before the Unix epoch.\<close>

definition zeroTime :: time where
  "zeroTime = - 62135596800 * 1000000000"

text \<open>
  \<open>main\<close>. \<open>parseRFC3339\<close> stands for \<open>time.Parse(time.RFC3339, _)\<close> and \<open>connects\<close> says
  whether \<open>database.NewFromEnv\<close> succeeds. \<open>log.Fatalf\<close> ends the process with status 1, a
  return from \<open>main\<close> with status 0. The result is the exit status, the query that
  \<open>AddFederationQuery\<close> was called with (if it was called) and the store.
\<close>

definition main :: "(string \<Rightarrow> time option) \<Rightarrow> bool \<Rightarrow> dbop set \<Rightarrow> flags \<Rightarrow> store \<Rightarrow> nat \<times> federation_query option \<times> store" where
  "main parseRFC3339 connects fails fl db =
     (if queryID fl = [] then (1, None, db)
      else if \<not> MatchString validQueryIDRegexp (queryID fl) then (1, None, db)
      else if serverAddr fl = [] then (1, None, db)
      else if \<not> MatchString validServerAddrRegexp (serverAddr fl) then (1, None, db)
      else if \<not> connects then (1, None, db)
      else
        (case (if lastTimestamp fl \<noteq> [] then parseRFC3339 (lastTimestamp fl) else Some zeroTime) of
           None \<Rightarrow> (1, None, db)
         | Some lastTime \<Rightarrow>
             (let query = \<lparr>query_id = queryID fl, server_addr = serverAddr fl,
                           include_regions = includeRegions fl, exclude_regions = excludeRegions fl,
                           last_timestamp = lastTime\<rparr>
              in case AddFederationQuery fails db query of
                   (Inl e, db') \<Rightarrow> (1, Some query, db')
                 | (Inr u, db') \<Rightarrow> (0, Some query, db'))))"

text \<open>
  The pattern of a query id in the words of the specification, to compare with the one of
  the tool: lowercase alphanumeric characters, hyphens and underscores, starting and ending
  with an alphanumeric character.
\<close>

definition documented_query_id :: "string \<Rightarrow> bool" where
  "documented_query_id s =
     (s \<noteq> [] \<and> list_all (\<lambda>c. lower c \<or> digit c \<or> c = CHR ''-'' \<or> c = CHR ''_'') s
      \<and> (lower (hd s) \<or> digit (hd s)) \<and> (lower (last s) \<or> digit (last s)))"

definition example_flags :: flags where
  "example_flags = \<lparr>queryID = ''us-east_1'', serverAddr = ''peer-a.example.com:443'',
                     lastTimestamp = [], includeRegions = [''US''], excludeRegions = []\<rparr>"

text \<open>The history rows of one sync id, in table order.\<close>

definition sync_rows :: "string \<Rightarrow> store \<Rightarrow> federation_sync list" where
  "sync_rows sid db = filter (\<lambda>r. sync_id r = sid) (syncT db)"

section \<open>Stores used as examples\<close>

definition lock_free_store :: store where
  "lock_free_store = \<lparr>lockT = [\<lparr>lock_id = ''sync'', expires = 900\<rparr>], queryT = [], syncT = []\<rparr>"

definition lock_held_store :: store where
  "lock_held_store =
     \<lparr>lockT = [\<lparr>lock_id = ''sync'', expires = 900\<rparr>, \<lparr>lock_id = ''export'', expires = 400\<rparr>],
      queryT = [], syncT = []\<rparr>"

definition peer_query :: federation_query where
  "peer_query = \<lparr>query_id = ''q1'', server_addr = ''peer-a:443'', include_regions = [''US''],
                  exclude_regions = [], last_timestamp = 0\<rparr>"

definition peer_query_b :: federation_query where
  "peer_query_b = \<lparr>query_id = ''q1'', server_addr = ''peer-b:8080'', include_regions = [],
                    exclude_regions = [''MX''], last_timestamp = 7\<rparr>"

definition query_store :: store where
  "query_store = \<lparr>lockT = [], queryT = [peer_query], syncT = []\<rparr>"

text \<open>A memory whose every address holds the query of the example, and one where it was renamed.\<close>

definition query_heap :: heap where
  "query_heap = (\<lambda>a. peer_query)"

definition renamed_heap :: heap where
  "renamed_heap = (\<lambda>a. peer_query\<lparr>query_id := ''q2''\<rparr>)"

text \<open>A memory where the query was edited and kept its id.\<close>

definition edited_heap :: heap where
  "edited_heap = (\<lambda>a. peer_query_b)"

definition started_closure :: FinalizeSyncFn where
  "started_closure = \<lparr>fin_q = 0, fin_started = 1000, fin_startedTimer = 5000,
                       fin_syncID = ''s1''\<rparr>"

definition started_store :: store where
  "started_store = snd (StartFederationSync {} 5000 ''s1'' query_heap query_store 0 1000)"

definition finalized_store :: store where
  "finalized_store = snd (finalize {} 5060 query_heap started_closure started_store 100 3)"

section \<open>Properties of the lock\<close>

lemma finishTx_no_fault [simp]:
  "finishTx {} db (res, commit, tx) = (res, if commit then tx else db)"
  by (simp add: finishTx_def)

text \<open>
  C1. Acquiring a lock, when no call into the store fails: with no row of that id a row
  expiring at now + ttl is inserted and a handle bound to the id is returned; with a row
  whose expiry is in the past the expiry becomes now + ttl and a handle is returned (nothing
  but the stored expiry is consulted, so whether the lock was ever released plays no part);
  with a row that is not expired the store is left as it was and ErrAlreadyLocked is
  returned.
\<close>

theorem Lock_three_cases:
  assumes "fails = {}"
  shows "(find (\<lambda>l. lock_id l = lockID) (lockT db) = None \<longrightarrow>
            Lock fails now1 now2 db lockID ttl =
              (Inr (UnlockFn lockID),
               db\<lparr>lockT := lockT db @ [\<lparr>lock_id = lockID, expires = now1 + ttl\<rparr>]\<rparr>))
       \<and> (\<forall>l. find (\<lambda>l. lock_id l = lockID) (lockT db) = Some l \<and> expires l < now2 \<longrightarrow>
            Lock fails now1 now2 db lockID ttl =
              (Inr (UnlockFn lockID),
               db\<lparr>lockT := map (\<lambda>r. if lock_id r = lockID then r\<lparr>expires := now1 + ttl\<rparr> else r)
                              (lockT db)\<rparr>))
       \<and> (\<forall>l. find (\<lambda>l. lock_id l = lockID) (lockT db) = Some l \<and> \<not> expires l < now2 \<longrightarrow>
            Lock fails now1 now2 db lockID ttl = (Inl ErrAlreadyLocked, db))"
  using assms
  by (simp add: Lock_def scanLock_def updateLockRows_def insertLockRow_def)

theorem Lock_three_cases_witness:
  "Lock {} 1000 1001 lock_free_store ''export'' 300 =
     (Inr (UnlockFn ''export''),
      \<lparr>lockT = [\<lparr>lock_id = ''sync'', expires = 900\<rparr>, \<lparr>lock_id = ''export'', expires = 1300\<rparr>],
       queryT = [], syncT = []\<rparr>)
   \<and> Lock {} 1000 1001 lock_held_store ''export'' 300 =
     (Inr (UnlockFn ''export''),
      \<lparr>lockT = [\<lparr>lock_id = ''sync'', expires = 900\<rparr>, \<lparr>lock_id = ''export'', expires = 1300\<rparr>],
       queryT = [], syncT = []\<rparr>)
   \<and> Lock {} 300 400 lock_held_store ''export'' 300 = (Inl ErrAlreadyLocked, lock_held_store)"
  using Lock_three_cases [of "{}" "''export''" lock_free_store 1000 1001 300]
        Lock_three_cases [of "{}" "''export''" lock_held_store 1000 1001 300]
        Lock_three_cases [of "{}" "''export''" lock_held_store 300 400 300]
  by (simp add: lock_free_store_def lock_held_store_def)

text \<open>
  One acquire after the other: once a call has obtained the lock with expiry now + ttl, a
  later call whose clock has not passed that expiry obtains nothing and writes nothing;
  when none of its calls into the store fails, its answer is ErrAlreadyLocked.
\<close>

lemma Lock_found_after_success:
  assumes "Lock fails now1 now2 db lockID ttl = (Inr h, db1)"
  shows "\<exists>l. find (\<lambda>l. lock_id l = lockID) (lockT db1) = Some l \<and> expires l = now1 + ttl"
proof (cases "find (\<lambda>l. lock_id l = lockID) (lockT db)")
  case None
  have app: "find (\<lambda>l. lock_id l = lockID) rows = None \<Longrightarrow>
        find (\<lambda>l. lock_id l = lockID) (rows @ [\<lparr>lock_id = lockID, expires = e\<rparr>])
          = Some \<lparr>lock_id = lockID, expires = e\<rparr>"
    for rows e
    by (induction rows) (auto split: if_splits)
  from None assms app [OF None] show ?thesis
    by (auto simp: Lock_def finishTx_def scanLock_def Let_def insertLockRow_def split: if_splits)
next
  case (Some l)
  have upd: "find (\<lambda>l. lock_id l = lockID) rows = Some l \<Longrightarrow>
        find (\<lambda>l. lock_id l = lockID) (updateLockRows e lockID rows) = Some (l\<lparr>expires := e\<rparr>)"
    for rows e
    unfolding updateLockRows_def by (induction rows) (auto split: if_splits)
  from Some assms show ?thesis
    by (auto simp: Lock_def finishTx_def scanLock_def Let_def upd split: if_splits)
qed

lemma Lock_serial_exclusion:
  assumes "Lock fails now1 now2 db lockID ttl = (Inr h, db1)"
    and "now2' \<le> now1 + ttl"
  shows "Lock {} now1' now2' db1 lockID ttl' = (Inl ErrAlreadyLocked, db1)"
    and "\<exists>e. Lock fails' now1' now2' db1 lockID ttl' = (Inl e, db1)"
  using Lock_found_after_success [OF assms(1)] assms(2)
  by (auto simp: Lock_def finishTx_def scanLock_def Let_def)

text \<open>
  C8. The handle that a successful acquire returns, called on whatever the store holds at
  that moment and with no call into the store failing: every row of the handle's lock id is
  deleted, whatever its expiry and whoever wrote it, the other rows and tables stay, and the
  call returns no error; in particular it returns no error and changes nothing when there
  is no row of that id.
\<close>

theorem unlock_deletes_current_row:
  assumes "Lock fails0 now1 now2 db0 lockID ttl = (Inr h, db1)"
  shows "unlock {} h db = (Inr (), db\<lparr>lockT := filter (\<lambda>l. lock_id l \<noteq> lockID) (lockT db)\<rparr>)
       \<and> (find (\<lambda>l. lock_id l = lockID) (lockT db) = None \<longrightarrow> unlock {} h db = (Inr (), db))"
proof -
  have h: "h = UnlockFn lockID"
    using assms
    by (auto simp: Lock_def finishTx_def scanLock_def Let_def
             split: if_splits option.splits sum.splits)
  have keep: "find (\<lambda>l. lock_id l = lockID) (lockT db) = None \<Longrightarrow>
              filter (\<lambda>l. lock_id l \<noteq> lockID) (lockT db) = lockT db"
    by (simp add: find_None_iff)
  show ?thesis
    using keep by (auto simp: h deleteLockRows_def)
qed

theorem unlock_deletes_current_row_witness:
  "unlock {} (UnlockFn ''export'') lock_held_store =
     (Inr (), lock_free_store)
   \<and> unlock {} (UnlockFn ''export'') lock_free_store = (Inr (), lock_free_store)"
proof -
  have acq: "Lock {} 1000 1001 lock_free_store ''export'' 300 =
     (Inr (UnlockFn ''export''),
      \<lparr>lockT = [\<lparr>lock_id = ''sync'', expires = 900\<rparr>, \<lparr>lock_id = ''export'', expires = 1300\<rparr>],
       queryT = [], syncT = []\<rparr>)"
    by (simp add: Lock_def scanLock_def insertLockRow_def lock_free_store_def)
  show ?thesis
    using unlock_deletes_current_row [OF acq, of lock_held_store]
          unlock_deletes_current_row [OF acq, of lock_free_store]
    by (simp add: lock_free_store_def lock_held_store_def)
qed

section \<open>Properties of the federation bookkeeping\<close>

lemma Time_Sub_exact:
  "minDuration \<le> t - u \<Longrightarrow> t - u \<le> maxDuration \<Longrightarrow> Time_Sub t u = t - u"
  by (simp add: Time_Sub_def)

lemma finalize_no_fault:
  "finalize {} now mem c db mt ti =
     (Inr (),
      db\<lparr>queryT := (if ti > 0 then updateQueryRows mt (query_id (mem (fin_q c))) (queryT db) else queryT db),
         syncT := updateSyncRows (fin_started c + Time_Sub now (fin_startedTimer c)) ti mt (fin_syncID c) (syncT db)\<rparr>)"
  by (simp add: finalize_def Let_def)

lemma finalize_failed_store:
  "fst (finalize fails now mem c db mt ti) \<noteq> Inr () \<Longrightarrow> snd (finalize fails now mem c db mt ti) = db"
  by (auto simp: finalize_def Let_def finishTx_def split: if_splits)

lemma StartFederationSync_result:
  "StartFederationSync fails t0 uuid mem db q startedAt = (Inr (sid, c), db1) \<Longrightarrow>
     sid = uuid \<and> c = \<lparr>fin_q = q, fin_started = startedAt, fin_startedTimer = t0, fin_syncID = uuid\<rparr>
   \<and> db1 = db\<lparr>syncT := syncT db @
                     [\<lparr>sync_id = uuid, sync_query_id = query_id (mem q), started = startedAt,
                       completed = None, insertions = None, max_timestamp = None\<rparr>]\<rparr>"
  by (auto simp: StartFederationSync_def Let_def split: if_splits)

lemma started_example:
  "StartFederationSync {} 5000 ''s1'' query_heap query_store 0 1000 = (Inr (''s1'', started_closure), started_store)"
  by (simp add: StartFederationSync_def Let_def started_closure_def started_store_def)

lemma started_store_eq:
  "started_store = \<lparr>lockT = [], queryT = [peer_query],
       syncT = [\<lparr>sync_id = ''s1'', sync_query_id = ''q1'', started = 1000,
                 completed = None, insertions = None, max_timestamp = None\<rparr>]\<rparr>"
  by (simp add: started_store_def StartFederationSync_def Let_def query_store_def query_heap_def
                peer_query_def)

lemma Time_Sub_examples:
  "Time_Sub 5060 5000 = 60" "Time_Sub 5070 5000 = 70" "Time_Sub 5075 5000 = 75"
  "Time_Sub 5090 5000 = 90" "Time_Sub 10000000000000005000 5000 = 9223372036854775807"
  by (simp_all add: Time_Sub_def minDuration_def maxDuration_def)

lemma finalized_store_eq:
  "finalized_store = \<lparr>lockT = [], queryT = [peer_query\<lparr>last_timestamp := 100\<rparr>],
       syncT = [\<lparr>sync_id = ''s1'', sync_query_id = ''q1'', started = 1000,
                 completed = Some 1060, insertions = Some 3, max_timestamp = Some 100\<rparr>]\<rparr>"
  by (simp add: finalized_store_def finalize_no_fault started_store_eq started_closure_def
                updateQueryRows_def updateSyncRows_def peer_query_def query_heap_def
                Time_Sub_examples)

lemma finalized_example:
  "finalize {} 5060 query_heap started_closure started_store 100 3 = (Inr (), finalized_store)"
  by (simp add: finalized_store_def finalize_no_fault)

lemma getFederationQuery_updateQueryRows:
  "getFederationQuery {} rows qid = Inr r \<Longrightarrow>
   getFederationQuery {} (updateQueryRows mt qid' rows) qid =
     Inr (if qid = qid' then r\<lparr>last_timestamp := mt\<rparr> else r)"
  unfolding getFederationQuery_def updateQueryRows_def
  by (induction rows) (auto split: option.splits if_splits)

lemma finalize_queryT_cases:
  "queryT (snd (finalize fails now mem c db mt ti)) = queryT db
   \<or> (0 < ti \<and> queryT (snd (finalize fails now mem c db mt ti)) =
         updateQueryRows mt (query_id (mem (fin_q c))) (queryT db))"
  by (auto simp: finalize_def Let_def finishTx_def)

lemma finalize_zero_queryT:
  "ti \<le> 0 \<Longrightarrow> queryT (snd (finalize fails now mem c db mt ti)) = queryT db"
  by (auto simp: finalize_def Let_def finishTx_def)

lemma finalize_all_zero_queryT:
  "list_all (\<lambda>(fails, now, mem, c, mt, ti). ti = 0) calls \<Longrightarrow> queryT (finalize_all db calls) = queryT db"
  by (induction db calls rule: finalize_all.induct) (auto simp: finalize_zero_queryT)

text \<open>
  The closure updates the query whose id it finds behind its pointer when it runs: once the
  caller has renamed the query, the rows of the new id are the ones that change.
\<close>

lemma finalize_updates_id_read_when_called:
  "0 < ti \<Longrightarrow> queryT (snd (finalize {} now mem c db mt ti)) =
     map (\<lambda>r. if query_id r = query_id (mem (fin_q c)) then r\<lparr>last_timestamp := mt\<rparr> else r) (queryT db)"
  by (simp add: finalize_no_fault updateQueryRows_def)

lemma finalize_after_rename_example:
  "queryT (snd (finalize {} 5060 renamed_heap started_closure started_store 100 3)) = [peer_query]"
  by (simp add: finalize_no_fault started_store_eq renamed_heap_def updateQueryRows_def
                peer_query_def)

text \<open>
  C3. For the finalize closure of a sync started for query q: a call with totalInserted > 0,
  with no call into the store failing and with q carrying the id it had when the sync
  started (the closure reads q.QueryID through its pointer when it runs), sets
  last_timestamp of the rows of q's id to maxTimestamp, so that reading q back gives the old
  row with the cursor maxTimestamp; a call with totalInserted = 0 leaves the query table as
  it was, whatever fails and whatever q holds; and so does any run of calls that all have
  totalInserted = 0.
\<close>

theorem finalize_cursor:
  assumes "StartFederationSync fails0 t0 uuid mem0 db0 q startedAt = (Inr (sid, c), db1)"
  shows "(fails = {} \<and> 0 < totalInserted \<and> query_id (mem q) = query_id (mem0 q) \<longrightarrow>
      fst (finalize fails now mem c db maxTimestamp totalInserted) = Inr ()
    \<and> queryT (snd (finalize fails now mem c db maxTimestamp totalInserted)) =
        map (\<lambda>r. if query_id r = query_id (mem0 q) then r\<lparr>last_timestamp := maxTimestamp\<rparr> else r)
            (queryT db)
    \<and> (\<forall>r. getFederationQuery {} (queryT db) (query_id (mem0 q)) = Inr r \<longrightarrow>
          getFederationQuery {} (queryT (snd (finalize fails now mem c db maxTimestamp totalInserted)))
             (query_id (mem0 q)) = Inr (r\<lparr>last_timestamp := maxTimestamp\<rparr>)))
   \<and> (totalInserted = 0 \<longrightarrow>
        queryT (snd (finalize fails now mem c db maxTimestamp totalInserted)) = queryT db)
   \<and> (list_all (\<lambda>(fails, now, mem, c, mt, ti). ti = 0) calls \<longrightarrow>
        queryT (finalize_all db calls) = queryT db)"
proof (intro conjI impI allI)
  have q: "fin_q c = q"
    using StartFederationSync_result [OF assms] by simp
  assume a: "fails = {} \<and> 0 < totalInserted \<and> query_id (mem q) = query_id (mem0 q)"
  then show "fst (finalize fails now mem c db maxTimestamp totalInserted) = Inr ()"
    by (simp add: finalize_no_fault)
  from a show "queryT (snd (finalize fails now mem c db maxTimestamp totalInserted)) =
        map (\<lambda>r. if query_id r = query_id (mem0 q) then r\<lparr>last_timestamp := maxTimestamp\<rparr> else r)
            (queryT db)"
    by (simp add: finalize_no_fault updateQueryRows_def q)
  fix r assume "getFederationQuery {} (queryT db) (query_id (mem0 q)) = Inr r"
  with a show "getFederationQuery {} (queryT (snd (finalize fails now mem c db maxTimestamp totalInserted)))
             (query_id (mem0 q)) = Inr (r\<lparr>last_timestamp := maxTimestamp\<rparr>)"
    by (simp add: finalize_no_fault getFederationQuery_updateQueryRows q)
next
  assume "totalInserted = 0"
  then show "queryT (snd (finalize fails now mem c db maxTimestamp totalInserted)) = queryT db"
    by (simp add: finalize_zero_queryT)
next
  assume "list_all (\<lambda>(fails, now, mem, c, mt, ti). ti = 0) calls"
  then show "queryT (finalize_all db calls) = queryT db"
    by (rule finalize_all_zero_queryT)
qed

theorem finalize_cursor_witness:
  "query_id (edited_heap 0) = query_id (query_heap 0)
   \<and> getFederationQuery {} (queryT (snd (finalize {} 5060 edited_heap started_closure started_store 100 3))) ''q1''
     = Inr (peer_query\<lparr>last_timestamp := 100\<rparr>)
   \<and> queryT (snd (finalize {} 5070 query_heap started_closure finalized_store 0 0)) = queryT finalized_store
   \<and> queryT (finalize_all finalized_store
        [({}, 5070, query_heap, started_closure, 0, 0),
         ({UpdateSync}, 5080, renamed_heap, started_closure, 0, 0)])
      = queryT finalized_store"
  using finalize_cursor [OF started_example, of "{}" 3 edited_heap 5060 started_store 100 "[]"]
        finalize_cursor [OF started_example, of "{}" 0 query_heap 5070 finalized_store 0
           "[({}, 5070, query_heap, started_closure, 0, 0),
             ({UpdateSync}, 5080, renamed_heap, started_closure, 0, 0)]"]
  by (simp add: started_store_eq getFederationQuery_def peer_query_def peer_query_b_def
                query_heap_def edited_heap_def)

text \<open>
  C4, as stated, fails: the closure writes maxTimestamp whenever totalInserted > 0, without
  comparing it with the stored cursor. After a sync that observed data and set the cursor to
  100, a call finalize(50, 1) sets it to 50.
\<close>

theorem finalize_cursor_decreases_counterexample:
  "getFederationQuery {} (queryT finalized_store) ''q1'' = Inr (peer_query\<lparr>last_timestamp := 100\<rparr>)
   \<and> getFederationQuery {}
        (queryT (snd (finalize {} 5070 query_heap started_closure finalized_store 50 1))) ''q1''
       = Inr (peer_query\<lparr>last_timestamp := 50\<rparr>)"
  by (simp add: finalized_store_eq finalize_no_fault started_closure_def updateQueryRows_def
                getFederationQuery_def peer_query_def query_heap_def)

text \<open>
  C4, amended. A finalize call does not decrease the stored cursor of any query, provided
  that, when totalInserted > 0, its maxTimestamp is at least the cursor stored for the query
  that the closure points to: the row read back afterwards is the one of before, or that
  one with the cursor maxTimestamp. A call with totalInserted \<le> 0 leaves the query table as
  it was, and a call that returns an error leaves the whole store as it was.
\<close>

theorem finalize_cursor_monotone:
  "(\<forall>r. getFederationQuery {} (queryT db) qid = Inr r
        \<and> (0 < totalInserted \<and> qid = query_id (mem (fin_q c)) \<longrightarrow> last_timestamp r \<le> maxTimestamp)
      \<longrightarrow> (\<exists>r'. getFederationQuery {}
                   (queryT (snd (finalize fails now mem c db maxTimestamp totalInserted))) qid = Inr r'
               \<and> last_timestamp r \<le> last_timestamp r'
               \<and> (r' = r \<or> r' = r\<lparr>last_timestamp := maxTimestamp\<rparr>)))
   \<and> (totalInserted \<le> 0 \<longrightarrow>
        queryT (snd (finalize fails now mem c db maxTimestamp totalInserted)) = queryT db)
   \<and> (fst (finalize fails now mem c db maxTimestamp totalInserted) \<noteq> Inr () \<longrightarrow>
        snd (finalize fails now mem c db maxTimestamp totalInserted) = db)"
proof (intro conjI impI allI)
  fix r
  assume a: "getFederationQuery {} (queryT db) qid = Inr r
        \<and> (0 < totalInserted \<and> qid = query_id (mem (fin_q c)) \<longrightarrow> last_timestamp r \<le> maxTimestamp)"
  show "\<exists>r'. getFederationQuery {}
                   (queryT (snd (finalize fails now mem c db maxTimestamp totalInserted))) qid = Inr r'
               \<and> last_timestamp r \<le> last_timestamp r'
               \<and> (r' = r \<or> r' = r\<lparr>last_timestamp := maxTimestamp\<rparr>)"
    using finalize_queryT_cases [of fails now mem c db maxTimestamp totalInserted] a
    by (auto simp: getFederationQuery_updateQueryRows)
next
  assume "totalInserted \<le> 0"
  then show "queryT (snd (finalize fails now mem c db maxTimestamp totalInserted)) = queryT db"
    by (rule finalize_zero_queryT)
next
  assume "fst (finalize fails now mem c db maxTimestamp totalInserted) \<noteq> Inr ()"
  then show "snd (finalize fails now mem c db maxTimestamp totalInserted) = db"
    by (rule finalize_failed_store)
qed

theorem finalize_cursor_monotone_witness:
  "getFederationQuery {} (queryT finalized_store) ''q1'' = Inr (peer_query\<lparr>last_timestamp := 100\<rparr>)
   \<and> getFederationQuery {}
        (queryT (snd (finalize {} 5070 query_heap started_closure finalized_store 150 2))) ''q1''
       = Inr (peer_query\<lparr>last_timestamp := 150\<rparr>)
   \<and> queryT (snd (finalize {} 5070 query_heap started_closure finalized_store 50 (- 1)))
       = queryT finalized_store
   \<and> fst (finalize {UpdateSync} 5070 query_heap started_closure finalized_store 50 1) \<noteq> Inr ()
   \<and> snd (finalize {UpdateSync} 5070 query_heap started_closure finalized_store 50 1) = finalized_store"
proof -
  have g: "getFederationQuery {} (queryT finalized_store) ''q1'' = Inr (peer_query\<lparr>last_timestamp := 100\<rparr>)"
    by (simp add: finalized_store_eq getFederationQuery_def peer_query_def)
  have up: "getFederationQuery {}
        (queryT (snd (finalize {} 5070 query_heap started_closure finalized_store 150 2))) ''q1''
       = Inr (peer_query\<lparr>last_timestamp := 150\<rparr>)"
    by (simp add: finalized_store_eq finalize_no_fault started_closure_def updateQueryRows_def
                  getFederationQuery_def peer_query_def query_heap_def)
  have f: "fst (finalize {UpdateSync} 5070 query_heap started_closure finalized_store 50 1) \<noteq> Inr ()"
    by (simp add: finalize_def Let_def finishTx_def)
  show ?thesis
    using g up f
      finalize_cursor_monotone [of finalized_store "''q1''" 2 query_heap started_closure 150 "{}" 5070]
      finalize_cursor_monotone [of finalized_store "''q1''" "- 1" query_heap started_closure 50 "{}" 5070]
      finalize_cursor_monotone [of finalized_store "''q1''" 1 query_heap started_closure 50 "{UpdateSync}" 5070]
    by simp
qed

lemma filter_not_found:
  "find P xs = None \<Longrightarrow> filter (\<lambda>x. \<not> P x) xs = xs"
  by (simp add: find_None_iff)

lemma AddFederationQuery_no_fault:
  "AddFederationQuery {} db q =
     (Inr (), db\<lparr>queryT := filter (\<lambda>r. query_id r \<noteq> query_id q) (queryT db) @ [q]\<rparr>)"
  by (auto simp: AddFederationQuery_def getFederationQuery_def Let_def deleteQueryRows_def
                 insertQueryRow_def filter_not_found
           split: option.splits)

lemma AddFederationQuery_all_or_nothing:
  "snd (AddFederationQuery fails db q) = db
   \<or> AddFederationQuery fails db q = AddFederationQuery {} db q"
  by (auto simp: AddFederationQuery_def getFederationQuery_def Let_def finishTx_def
           split: option.splits)

text \<open>
  C5. Two AddFederationQuery calls of the same query id, one after the other and with no call
  into the store failing: both return no error, and afterwards the table holds exactly one
  row of that id, equal to the second call's query in every field, while the rows of other
  ids are the ones of before. A single call, whatever fails, either leaves the store as it
  was or has deleted the old rows of the id and inserted the new one: no state in between
  is committed.
\<close>

theorem AddFederationQuery_replaces:
  assumes "query_id q1 = query_id q2"
  shows "fst (AddFederationQuery {} db q1) = Inr ()
       \<and> fst (AddFederationQuery {} (snd (AddFederationQuery {} db q1)) q2) = Inr ()
       \<and> filter (\<lambda>r. query_id r = query_id q2)
            (queryT (snd (AddFederationQuery {} (snd (AddFederationQuery {} db q1)) q2))) = [q2]
       \<and> filter (\<lambda>r. query_id r \<noteq> query_id q2)
            (queryT (snd (AddFederationQuery {} (snd (AddFederationQuery {} db q1)) q2)))
          = filter (\<lambda>r. query_id r \<noteq> query_id q2) (queryT db)
       \<and> (snd (AddFederationQuery fails db q2) = db
          \<or> snd (AddFederationQuery fails db q2) =
              db\<lparr>queryT := filter (\<lambda>r. query_id r \<noteq> query_id q2) (queryT db) @ [q2]\<rparr>)"
proof (intro conjI)
  show "snd (AddFederationQuery fails db q2) = db
          \<or> snd (AddFederationQuery fails db q2) =
              db\<lparr>queryT := filter (\<lambda>r. query_id r \<noteq> query_id q2) (queryT db) @ [q2]\<rparr>"
    using AddFederationQuery_all_or_nothing [of fails db q2]
    by (auto simp: AddFederationQuery_no_fault)
qed (simp_all add: AddFederationQuery_no_fault assms)

theorem AddFederationQuery_replaces_witness:
  "query_id peer_query = query_id peer_query_b
   \<and> server_addr peer_query \<noteq> server_addr peer_query_b
   \<and> queryT (snd (AddFederationQuery {} (snd (AddFederationQuery {} lock_free_store peer_query)) peer_query_b))
       = [peer_query_b]"
  using AddFederationQuery_replaces [of peer_query peer_query_b lock_free_store "{}"]
  by (simp add: peer_query_def peer_query_b_def lock_free_store_def AddFederationQuery_no_fault)

lemma updateSyncRows_mem:
  "row \<in> set rows \<Longrightarrow> sync_id row = sid \<Longrightarrow>
   row\<lparr>completed := Some ca, insertions := Some ti, max_timestamp := Some mt\<rparr>
     \<in> set (updateSyncRows ca ti mt sid rows)"
  by (force simp: updateSyncRows_def)

text \<open>
  C6. For the closure that StartFederationSync returned together with the history row it
  inserted, and for instants that a Go Time can hold: a finalize call (no call into the
  store failing) returns no error and rewrites every history row of that sync id, whatever
  totalInserted is and so whether or not the cursor moved, so that insertions is
  totalInserted, max_timestamp is maxTimestamp and completed is startedAt plus the result of
  Sub on the clock reading of the finalize call and the one taken in StartFederationSync.
  As long as the two readings are no further apart than a Duration can say (about 292
  years) that result is the time elapsed between them, and completed is startedAt plus the
  elapsed time.
\<close>

theorem finalize_updates_history_row:
  assumes "StartFederationSync fails0 t0 uuid mem0 db0 q startedAt = (Inr (sid, c), db1)"
    and "representable startedAt" and "representable t0" and "representable now"
    and "representable (startedAt + Time_Sub now t0)"
  shows "\<lparr>sync_id = sid, sync_query_id = query_id (mem0 q), started = startedAt,
          completed = None, insertions = None, max_timestamp = None\<rparr> \<in> set (syncT db1)
       \<and> fst (finalize {} now mem c db maxTimestamp totalInserted) = Inr ()
       \<and> syncT (snd (finalize {} now mem c db maxTimestamp totalInserted)) =
           map (\<lambda>r. if sync_id r = sid
                    then r\<lparr>completed := Some (startedAt + Time_Sub now t0),
                           insertions := Some totalInserted,
                           max_timestamp := Some maxTimestamp\<rparr>
                    else r) (syncT db)
       \<and> (minDuration \<le> now - t0 \<and> now - t0 \<le> maxDuration \<longrightarrow>
            syncT (snd (finalize {} now mem c db maxTimestamp totalInserted)) =
              map (\<lambda>r. if sync_id r = sid
                       then r\<lparr>completed := Some (startedAt + (now - t0)),
                              insertions := Some totalInserted,
                              max_timestamp := Some maxTimestamp\<rparr>
                       else r) (syncT db)
          \<and> (\<forall>row. row \<in> set (syncT db) \<and> sync_id row = sid \<longrightarrow>
                row\<lparr>completed := Some (startedAt + (now - t0)), insertions := Some totalInserted,
                    max_timestamp := Some maxTimestamp\<rparr>
                  \<in> set (syncT (snd (finalize {} now mem c db maxTimestamp totalInserted)))))"
proof -
  note r = StartFederationSync_result [OF assms(1)]
  have c: "fin_started c = startedAt" "fin_startedTimer c = t0" "fin_syncID c = sid"
    using r by simp_all
  have rows: "syncT (snd (finalize {} now mem c db maxTimestamp totalInserted)) =
      updateSyncRows (startedAt + Time_Sub now t0) totalInserted maxTimestamp sid (syncT db)"
    by (simp add: finalize_no_fault c)
  show ?thesis
  proof (intro conjI allI impI)
    show "\<lparr>sync_id = sid, sync_query_id = query_id (mem0 q), started = startedAt,
          completed = None, insertions = None, max_timestamp = None\<rparr> \<in> set (syncT db1)"
      using r by simp
    show "fst (finalize {} now mem c db maxTimestamp totalInserted) = Inr ()"
      by (simp add: finalize_no_fault)
    show "syncT (snd (finalize {} now mem c db maxTimestamp totalInserted)) =
           map (\<lambda>r. if sync_id r = sid
                    then r\<lparr>completed := Some (startedAt + Time_Sub now t0),
                           insertions := Some totalInserted,
                           max_timestamp := Some maxTimestamp\<rparr>
                    else r) (syncT db)"
      by (simp add: rows updateSyncRows_def)
  next
    assume b: "minDuration \<le> now - t0 \<and> now - t0 \<le> maxDuration"
    then show "syncT (snd (finalize {} now mem c db maxTimestamp totalInserted)) =
              map (\<lambda>r. if sync_id r = sid
                       then r\<lparr>completed := Some (startedAt + (now - t0)),
                              insertions := Some totalInserted,
                              max_timestamp := Some maxTimestamp\<rparr>
                       else r) (syncT db)"
      by (simp add: rows updateSyncRows_def Time_Sub_exact)
  next
    fix row
    assume b: "minDuration \<le> now - t0 \<and> now - t0 \<le> maxDuration"
      and m: "row \<in> set (syncT db) \<and> sync_id row = sid"
    from m have "row\<lparr>completed := Some (startedAt + Time_Sub now t0), insertions := Some totalInserted,
                    max_timestamp := Some maxTimestamp\<rparr>
                  \<in> set (syncT (snd (finalize {} now mem c db maxTimestamp totalInserted)))"
      by (simp add: rows updateSyncRows_mem)
    with b show "row\<lparr>completed := Some (startedAt + (now - t0)), insertions := Some totalInserted,
                    max_timestamp := Some maxTimestamp\<rparr>
                  \<in> set (syncT (snd (finalize {} now mem c db maxTimestamp totalInserted)))"
      by (simp add: Time_Sub_exact)
  qed
qed

theorem finalize_updates_history_row_witness:
  "representable 1000 \<and> representable 5000 \<and> representable 5060
   \<and> representable (1000 + Time_Sub 5060 5000)
   \<and> minDuration \<le> 5060 - 5000 \<and> 5060 - 5000 \<le> maxDuration
   \<and> syncT started_store = [\<lparr>sync_id = ''s1'', sync_query_id = ''q1'', started = 1000,
                 completed = None, insertions = None, max_timestamp = None\<rparr>]
   \<and> finalize {} 5060 query_heap started_closure started_store 100 3 = (Inr (), finalized_store)
   \<and> syncT finalized_store = [\<lparr>sync_id = ''s1'', sync_query_id = ''q1'', started = 1000,
                 completed = Some 1060, insertions = Some 3, max_timestamp = Some 100\<rparr>]
   \<and> syncT (snd (finalize {} 5090 renamed_heap started_closure started_store 0 0)) =
        [\<lparr>sync_id = ''s1'', sync_query_id = ''q1'', started = 1000,
                 completed = Some 1090, insertions = Some 0, max_timestamp = Some 0\<rparr>]
   \<and> syncT (snd (finalize {} 10000000000000005000 query_heap started_closure started_store 0 0)) =
        [\<lparr>sync_id = ''s1'', sync_query_id = ''q1'', started = 1000,
                 completed = Some 9223372036854776807, insertions = Some 0, max_timestamp = Some 0\<rparr>]"
proof -
  have rep: "representable 1000" "representable 5000" "representable 5060" "representable 5090"
    "representable 10000000000000005000"
    "representable (1000 + Time_Sub 5060 5000)" "representable (1000 + Time_Sub 5090 5000)"
    "representable (1000 + Time_Sub 10000000000000005000 5000)"
    by (simp_all add: representable_def Time_Sub_examples)
  have bnd: "minDuration \<le> 5060 - 5000 \<and> 5060 - 5000 \<le> maxDuration"
    "minDuration \<le> 5090 - 5000 \<and> 5090 - 5000 \<le> maxDuration"
    by (simp_all add: minDuration_def maxDuration_def)
  have a: "finalize {} 5060 query_heap started_closure started_store 100 3 = (Inr (), finalized_store)"
    by (rule finalized_example)
  have b: "syncT (snd (finalize {} 5060 query_heap started_closure started_store 100 3)) =
        [\<lparr>sync_id = ''s1'', sync_query_id = ''q1'', started = 1000,
                 completed = Some 1060, insertions = Some 3, max_timestamp = Some 100\<rparr>]"
    using bnd finalize_updates_history_row [OF started_example rep(1) rep(2) rep(3) rep(6),
         of query_heap started_store 100 3]
    by (simp add: started_store_eq Time_Sub_examples)
  have c: "syncT (snd (finalize {} 5090 renamed_heap started_closure started_store 0 0)) =
        [\<lparr>sync_id = ''s1'', sync_query_id = ''q1'', started = 1000,
                 completed = Some 1090, insertions = Some 0, max_timestamp = Some 0\<rparr>]"
    using bnd finalize_updates_history_row [OF started_example rep(1) rep(2) rep(4) rep(7),
         of renamed_heap started_store 0 0]
    by (simp add: started_store_eq Time_Sub_examples)
  have d: "syncT (snd (finalize {} 10000000000000005000 query_heap started_closure started_store 0 0)) =
        [\<lparr>sync_id = ''s1'', sync_query_id = ''q1'', started = 1000,
                 completed = Some 9223372036854776807, insertions = Some 0, max_timestamp = Some 0\<rparr>]"
    using finalize_updates_history_row [OF started_example rep(1) rep(2) rep(5) rep(8),
         of query_heap started_store 0 0]
    by (simp add: started_store_eq Time_Sub_examples)
  from b have e: "syncT finalized_store = [\<lparr>sync_id = ''s1'', sync_query_id = ''q1'', started = 1000,
                 completed = Some 1060, insertions = Some 3, max_timestamp = Some 100\<rparr>]"
    by (simp add: a)
  have f: "syncT started_store = [\<lparr>sync_id = ''s1'', sync_query_id = ''q1'', started = 1000,
                 completed = None, insertions = None, max_timestamp = None\<rparr>]"
    by (simp add: started_store_eq)
  show ?thesis
    by (intro conjI rep(1) rep(2) rep(3) rep(6) a c d e f conjunct1 [OF bnd(1)] conjunct2 [OF bnd(1)])
qed

text \<open>
  C7, as stated, fails: the closure can be invoked again, and each invocation overwrites the
  completed row. After finalize(100, 3) at clock 5060, the same closure called with (50, 1)
  at clock 5075 rewrites completed, insertions and max_timestamp.
\<close>

theorem finalize_again_changes_row_counterexample:
  "finalize {} 5060 query_heap started_closure started_store 100 3 = (Inr (), finalized_store)
   \<and> syncT finalized_store = [\<lparr>sync_id = ''s1'', sync_query_id = ''q1'', started = 1000,
                 completed = Some 1060, insertions = Some 3, max_timestamp = Some 100\<rparr>]
   \<and> syncT (snd (finalize {} 5075 query_heap started_closure finalized_store 50 1)) =
        [\<lparr>sync_id = ''s1'', sync_query_id = ''q1'', started = 1000,
                 completed = Some 1075, insertions = Some 1, max_timestamp = Some 50\<rparr>]"
  by (simp add: finalized_example)
     (simp add: finalized_store_eq finalize_no_fault started_closure_def updateSyncRows_def
                Time_Sub_examples)

lemma Lock_syncT: "syncT (snd (Lock fails now1 now2 db lockID ttl)) = syncT db"
  by (auto simp: Lock_def finishTx_def scanLock_def Let_def split: sum.splits option.splits)

lemma unlock_syncT: "syncT (snd (unlock fails h db)) = syncT db"
  by (cases h) (auto simp: finishTx_def)

lemma AddFederationQuery_syncT: "syncT (snd (AddFederationQuery fails db q)) = syncT db"
  by (auto simp: AddFederationQuery_def finishTx_def getFederationQuery_def Let_def
           split: sum.splits option.splits)

lemma StartFederationSync_other_rows:
  "uuid \<noteq> sid \<Longrightarrow>
   sync_rows sid (snd (StartFederationSync fails now uuid mem db qp startedAt)) = sync_rows sid db"
  by (auto simp: StartFederationSync_def Let_def sync_rows_def)

lemma filter_updateSyncRows_other:
  "sid' \<noteq> sid \<Longrightarrow> filter (\<lambda>r. sync_id r = sid) (updateSyncRows ca ti mt sid' rows)
     = filter (\<lambda>r. sync_id r = sid) rows"
  unfolding updateSyncRows_def by (induction rows) auto

lemma filter_updateSyncRows_same:
  "filter (\<lambda>r. sync_id r = sid) (updateSyncRows ca ti mt sid rows)
     = map (\<lambda>r. r\<lparr>completed := Some ca, insertions := Some ti, max_timestamp := Some mt\<rparr>)
         (filter (\<lambda>r. sync_id r = sid) rows)"
  unfolding updateSyncRows_def by (induction rows) auto

lemma finalize_other_rows:
  "fin_syncID c \<noteq> sid \<Longrightarrow> sync_rows sid (snd (finalize fails now mem c db mt ti)) = sync_rows sid db"
  by (auto simp: finalize_def Let_def finishTx_def sync_rows_def filter_updateSyncRows_other)

lemma finalize_own_rows:
  "sync_rows (fin_syncID c) (snd (finalize {} now mem c db mt ti)) =
     map (\<lambda>r. r\<lparr>completed := Some (fin_started c + Time_Sub now (fin_startedTimer c)),
                insertions := Some ti, max_timestamp := Some mt\<rparr>)
         (sync_rows (fin_syncID c) db)"
  by (simp add: finalize_no_fault sync_rows_def filter_updateSyncRows_same)

text \<open>
  C7, amended. The history rows of a sync id are changed by nothing but the finalize closure
  of that id: Lock, the unlock closure, AddFederationQuery, a StartFederationSync that
  generates another id and the finalize closures of other ids leave them as they are,
  whatever fails. Every invocation of the row's own closure, the first and any later one,
  overwrites completed, insertions and max_timestamp.
\<close>

theorem history_row_changed_only_by_own_finalize:
  "sync_rows sid (snd (Lock fails now1 now2 db lockID ttl)) = sync_rows sid db
   \<and> sync_rows sid (snd (unlock fails h db)) = sync_rows sid db
   \<and> sync_rows sid (snd (AddFederationQuery fails db q)) = sync_rows sid db
   \<and> (uuid \<noteq> sid \<longrightarrow>
        sync_rows sid (snd (StartFederationSync fails now uuid mem db qp startedAt)) = sync_rows sid db)
   \<and> (fin_syncID c \<noteq> sid \<longrightarrow>
        sync_rows sid (snd (finalize fails now mem c db maxTimestamp totalInserted)) = sync_rows sid db)
   \<and> (fin_syncID c = sid \<longrightarrow>
        sync_rows sid (snd (finalize {} now mem c db maxTimestamp totalInserted)) =
          map (\<lambda>r. r\<lparr>completed := Some (fin_started c + Time_Sub now (fin_startedTimer c)),
                     insertions := Some totalInserted, max_timestamp := Some maxTimestamp\<rparr>)
              (sync_rows sid db))"
proof (intro conjI impI)
  show "sync_rows sid (snd (Lock fails now1 now2 db lockID ttl)) = sync_rows sid db"
    by (simp add: sync_rows_def Lock_syncT)
  show "sync_rows sid (snd (unlock fails h db)) = sync_rows sid db"
    by (simp add: sync_rows_def unlock_syncT)
  show "sync_rows sid (snd (AddFederationQuery fails db q)) = sync_rows sid db"
    by (simp add: sync_rows_def AddFederationQuery_syncT)
next
  assume "uuid \<noteq> sid"
  then show "sync_rows sid (snd (StartFederationSync fails now uuid mem db qp startedAt)) = sync_rows sid db"
    by (rule StartFederationSync_other_rows)
next
  assume "fin_syncID c \<noteq> sid"
  then show "sync_rows sid (snd (finalize fails now mem c db maxTimestamp totalInserted)) = sync_rows sid db"
    by (rule finalize_other_rows)
next
  assume "fin_syncID c = sid"
  then show "sync_rows sid (snd (finalize {} now mem c db maxTimestamp totalInserted)) =
          map (\<lambda>r. r\<lparr>completed := Some (fin_started c + Time_Sub now (fin_startedTimer c)),
                     insertions := Some totalInserted, max_timestamp := Some maxTimestamp\<rparr>)
              (sync_rows sid db)"
    using finalize_own_rows [of c now mem db maxTimestamp totalInserted] by simp
qed

theorem history_row_changed_only_by_own_finalize_witness:
  "sync_rows ''s1'' (snd (StartFederationSync {} 6000 ''s2'' query_heap finalized_store 0 2000))
      = sync_rows ''s1'' finalized_store
   \<and> sync_rows ''s1'' (snd (finalize {} 6010 query_heap (started_closure\<lparr>fin_syncID := ''s2''\<rparr>) finalized_store 70 4))
      = sync_rows ''s1'' finalized_store
   \<and> sync_rows ''s1'' (snd (finalize {} 5075 query_heap started_closure finalized_store 50 1)) =
        [\<lparr>sync_id = ''s1'', sync_query_id = ''q1'', started = 1000,
                 completed = Some 1075, insertions = Some 1, max_timestamp = Some 50\<rparr>]"
  using history_row_changed_only_by_own_finalize
          [where sid = "''s1''" and fails = "{}" and db = finalized_store and uuid = "''s2''"
             and now = 6010 and mem = query_heap and qp = 0 and startedAt = 2000
             and c = "started_closure\<lparr>fin_syncID := ''s2''\<rparr>" and maxTimestamp = 70
             and totalInserted = 4]
        history_row_changed_only_by_own_finalize
          [where sid = "''s1''" and fails = "{}" and db = finalized_store and uuid = "''s2''"
             and now = 5075 and mem = query_heap and qp = 0 and startedAt = 2000
             and c = started_closure and maxTimestamp = 50 and totalInserted = 1]
  by (simp add: started_closure_def sync_rows_def finalized_store_eq finalize_no_fault
                updateSyncRows_def StartFederationSync_def Let_def Time_Sub_examples)

section \<open>Region authorization\<close>

text \<open>
  C9. With a config that allows all regions every request is accepted; with the allowed set
  US, CA the requests for US and for US, CA are accepted and the request for MX fails with
  the text application 'com.example.pkg' tried to write unauthorized region: 'MX'; with no
  config every request fails.
\<close>

theorem VerifyRegions_cases:
  "(\<forall>cfg data. AllowAllRegions cfg \<longrightarrow> VerifyRegions (Some cfg) data = Inr ())
   \<and> VerifyRegions (Some usCaRegions) \<lparr>Regions = [''US'']\<rparr> = Inr ()
   \<and> VerifyRegions (Some usCaRegions) \<lparr>Regions = [''US'', ''CA'']\<rparr> = Inr ()
   \<and> VerifyRegions (Some usCaRegions) \<lparr>Regions = [''MX'']\<rparr> =
       Inl (''application '' @ [CHR 0x27] @ ''com.example.pkg'' @ [CHR 0x27]
            @ '' tried to write unauthorized region: '' @ [CHR 0x27] @ ''MX'' @ [CHR 0x27])
   \<and> (\<forall>data. VerifyRegions None data = Inl ''no allowed regions configured'')"
  by (simp add: VerifyRegions_def usCaRegions_def appPkgName_def quoted_def)

theorem VerifyRegions_cases_witness:
  "AllowAllRegions allRegions
   \<and> VerifyRegions (Some allRegions) \<lparr>Regions = [''US'']\<rparr> = Inr ()
   \<and> VerifyRegions (Some allRegions) \<lparr>Regions = [''MX'', ''ZZ'']\<rparr> = Inr ()
   \<and> VerifyRegions None \<lparr>Regions = [''US'']\<rparr> = Inl ''no allowed regions configured''"
  using VerifyRegions_cases by (simp add: allRegions_def)

section \<open>Properties of the command-line tool\<close>

lemma match_Never [simp]: "MatchString Never s = False"
  by (induction s) auto

lemma match_Empty [simp]: "MatchString Empty s = (s = [])"
  by (cases s) auto

lemma match_Class: "MatchString (Class p) s = (\<exists>c. s = [c] \<and> p c)"
  by (cases s) auto

lemma match_Alt [simp]: "MatchString (Alt a b) s = (MatchString a s \<or> MatchString b s)"
  by (induction s arbitrary: a b) auto

lemma match_Cat:
  "MatchString (Cat a b) s = (\<exists>u v. s = u @ v \<and> MatchString a u \<and> MatchString b v)"
proof (induction s arbitrary: a)
  case Nil
  then show ?case by simp
next
  case (Cons c s)
  have split: "(\<exists>u v. c # s = u @ v \<and> MatchString a u \<and> MatchString b v) =
        ((nullable a \<and> MatchString (deriv c b) s)
         \<or> (\<exists>u v. s = u @ v \<and> MatchString (deriv c a) u \<and> MatchString b v))"
    (is "?L = ?R")
  proof
    assume ?L
    then obtain u v where uv: "c # s = u @ v" "MatchString a u" "MatchString b v" by blast
    show ?R
    proof (cases u)
      case Nil
      with uv show ?thesis by auto
    next
      case (Cons d u')
      with uv show ?thesis by auto
    qed
  next
    assume ?R
    then show ?L
    proof
      assume "nullable a \<and> MatchString (deriv c b) s"
      then have "c # s = [] @ (c # s) \<and> MatchString a [] \<and> MatchString b (c # s)" by simp
      then show ?L by blast
    next
      assume "\<exists>u v. s = u @ v \<and> MatchString (deriv c a) u \<and> MatchString b v"
      then obtain u v where "s = u @ v" "MatchString (deriv c a) u" "MatchString b v" by blast
      then have "c # s = (c # u) @ v \<and> MatchString a (c # u) \<and> MatchString b v" by simp
      then show ?L by blast
    qed
  qed
  show ?case
    unfolding split using Cons.IH [of "deriv c a"] by auto
qed

lemma match_Star_Class:
  "MatchString (Star (Class p)) s = list_all p s"
proof (induction s)
  case Nil
  then show ?case by simp
next
  case (Cons c s)
  have "MatchString (Star (Class p)) (c # s) = MatchString (Cat (if p c then Empty else Never) (Star (Class p))) s"
    by simp
  also have "\<dots> = (p c \<and> MatchString (Star (Class p)) s)"
    by (auto simp: match_Cat)
  finally show ?case using Cons.IH by simp
qed

lemma match_Plus_Class:
  "MatchString (PlusRx (Class p)) s = (s \<noteq> [] \<and> list_all p s)"
  by (cases s) (auto simp: PlusRx_def match_Cat match_Class match_Star_Class Cons_eq_append_conv)

lemma match_Class_Cat:
  "MatchString (Cat (Class p) r) s = (\<exists>c t. s = c # t \<and> p c \<and> MatchString r t)"
  by (cases s) (auto simp: match_Cat)

lemma match_Star_Class_Cat:
  "MatchString (Cat (Star (Class p)) (Class q)) t =
     (\<exists>m d. t = m @ [d] \<and> list_all p m \<and> q d)"
  by (auto simp: match_Cat match_Class match_Star_Class)

lemma validQueryID_iff:
  "MatchString validQueryIDRegexp s =
     (\<exists>c m d. s = c # m @ [d] \<and> lower c
        \<and> list_all (\<lambda>x. lower x \<or> digit x \<or> x = CHR ''-'' \<or> x = CHR ''_'') m
        \<and> (lower d \<or> digit d))"
  unfolding validQueryIDRegexp_def match_Class_Cat match_Star_Class_Cat
  by blast

lemma validServerAddr_iff:
  "MatchString validServerAddrRegexp s =
     (\<exists>h. h \<noteq> [] \<and> list_all (\<lambda>x. lower x \<or> digit x \<or> x = CHR ''.'' \<or> x = CHR ''-'') h
        \<and> (s = h \<or> (\<exists>p. p \<noteq> [] \<and> list_all digit p \<and> s = h @ CHR '':'' # p)))"
  unfolding validServerAddrRegexp_def QuestRx_def
  by (auto simp: match_Cat match_Class match_Plus_Class)

text \<open>
  C10, as stated, fails: the tool's pattern asks for a lowercase letter first and for at
  least two characters, so it turns down ids that the documented pattern admits. The ids
  9ab and a start and end with an alphanumeric character, and the tool exits with status 1
  on them.
\<close>

theorem main_rejects_documented_id_counterexample:
  "documented_query_id ''9ab''
   \<and> main (\<lambda>s. None) True {} (example_flags\<lparr>queryID := ''9ab''\<rparr>) query_store = (1, None, query_store)
   \<and> documented_query_id ''a''
   \<and> main (\<lambda>s. None) True {} (example_flags\<lparr>queryID := ''a''\<rparr>) query_store = (1, None, query_store)"
  by (simp add: documented_query_id_def main_def example_flags_def validQueryIDRegexp_def
                lower_def digit_def in_range_def)

text \<open>
  C10, amended. The tool accepts a query id exactly when it has at least two characters, the
  first a lowercase letter, the last a lowercase letter or a digit, and between them only
  lowercase letters, digits, hyphens and underscores. For every query id or server address
  that does not match its pattern the tool ends with status 1, AddFederationQuery is not
  called and the store is as before. With a server address that matches, a database that
  connects and no last-timestamp, AddFederationQuery is called exactly when the query id
  matches.
\<close>

theorem main_validates:
  "(MatchString validQueryIDRegexp (queryID fl) =
      (\<exists>c m d. queryID fl = c # m @ [d] \<and> lower c
         \<and> list_all (\<lambda>x. lower x \<or> digit x \<or> x = CHR ''-'' \<or> x = CHR ''_'') m
         \<and> (lower d \<or> digit d)))
   \<and> (\<not> MatchString validQueryIDRegexp (queryID fl) \<or> \<not> MatchString validServerAddrRegexp (serverAddr fl)
        \<longrightarrow> main parseRFC3339 connects fails fl db = (1, None, db))
   \<and> (MatchString validServerAddrRegexp (serverAddr fl) \<and> connects \<and> lastTimestamp fl = []
        \<longrightarrow> (fst (snd (main parseRFC3339 connects fails fl db)) \<noteq> None)
             = MatchString validQueryIDRegexp (queryID fl))"
proof (intro conjI impI)
  show "MatchString validQueryIDRegexp (queryID fl) =
      (\<exists>c m d. queryID fl = c # m @ [d] \<and> lower c
         \<and> list_all (\<lambda>x. lower x \<or> digit x \<or> x = CHR ''-'' \<or> x = CHR ''_'') m
         \<and> (lower d \<or> digit d))"
    by (rule validQueryID_iff)
next
  assume "\<not> MatchString validQueryIDRegexp (queryID fl) \<or> \<not> MatchString validServerAddrRegexp (serverAddr fl)"
  then show "main parseRFC3339 connects fails fl db = (1, None, db)"
    by (auto simp: main_def)
next
  assume a: "MatchString validServerAddrRegexp (serverAddr fl) \<and> connects \<and> lastTimestamp fl = []"
  have ne: "serverAddr fl \<noteq> []"
    using a by (auto simp: validServerAddr_iff)
  have ne': "MatchString validQueryIDRegexp (queryID fl) \<Longrightarrow> queryID fl \<noteq> []"
    by (auto simp: validQueryID_iff)
  show "(fst (snd (main parseRFC3339 connects fails fl db)) \<noteq> None)
             = MatchString validQueryIDRegexp (queryID fl)"
    using a ne ne' by (auto simp: main_def Let_def split: prod.splits sum.splits)
qed

theorem main_validates_witness:
  "MatchString validQueryIDRegexp ''us-east_1''
   \<and> MatchString validServerAddrRegexp ''peer-a.example.com:443''
   \<and> fst (snd (main (\<lambda>s. None) True {} example_flags query_store)) \<noteq> None
   \<and> \<not> MatchString validQueryIDRegexp ''US-East''
   \<and> main (\<lambda>s. None) True {} (example_flags\<lparr>queryID := ''US-East''\<rparr>) query_store = (1, None, query_store)
   \<and> \<not> MatchString validServerAddrRegexp ''peer a''
   \<and> main (\<lambda>s. None) True {} (example_flags\<lparr>serverAddr := ''peer a''\<rparr>) query_store = (1, None, query_store)"
proof -
  have q: "MatchString validQueryIDRegexp ''us-east_1''"
    by (simp add: validQueryIDRegexp_def lower_def digit_def in_range_def)
  have a: "MatchString validServerAddrRegexp ''peer-a.example.com:443''"
    by (simp add: validServerAddrRegexp_def PlusRx_def QuestRx_def lower_def digit_def in_range_def)
  have nq: "\<not> MatchString validQueryIDRegexp ''US-East''"
    by (simp add: validQueryIDRegexp_def lower_def digit_def in_range_def)
  have na: "\<not> MatchString validServerAddrRegexp ''peer a''"
    by (simp add: validServerAddrRegexp_def PlusRx_def QuestRx_def lower_def digit_def in_range_def)
  show ?thesis
    using q a nq na
      main_validates [of example_flags "\<lambda>s. None" True "{}" query_store]
      main_validates [of "example_flags\<lparr>queryID := ''US-East''\<rparr>" "\<lambda>s. None" True "{}" query_store]
      main_validates [of "example_flags\<lparr>serverAddr := ''peer a''\<rparr>" "\<lambda>s. None" True "{}" query_store]
    by (simp add: example_flags_def)
qed

end
